theory Spec2Isabelle
  imports Main "HOL-Library.Word"
begin

section \<open>Values of the Python program\<close>

text \<open>
  The module \<^verbatim>\<open>viser/_gui.py\<close> keeps, for one GUI input, a mutable record
  \<^verbatim>\<open>_GuiHandleState\<close> and offers the operations of \<^verbatim>\<open>GuiHandle\<close> and
  \<^verbatim>\<open>GuiSelectHandle\<close> on it. Every operation is modelled as a function from the record
  before the call to an outcome (returned, or raised with the exception) and the record after
  the call: the record is mutated in place, so what was written before an exception is
  raised stays written.

  A Python float is kept as its 64-bit pattern: the program only stores and forwards floats.
\<close>

type_synonym pyfloat = "64 word"

datatype exn = AssertionError | TypeError | ValueError | KeyError | IndexError | OverflowError

text \<open>The values a GUI input holds (the type variable \<^verbatim>\<open>T\<close>): booleans, integers,
  floats, strings and tuples.\<close>

datatype pyval =
    PBool bool
  | PInt int
  | PFloat pyfloat
  | PStr string
  | PTuple "pyval list"

datatype pytype = TBool | TInt | TFloat | TStr | TTuple

fun type_of :: "pyval \<Rightarrow> pytype" where
  "type_of (PBool b) = TBool"
| "type_of (PInt n) = TInt"
| "type_of (PFloat f) = TFloat"
| "type_of (PStr s) = TStr"
| "type_of (PTuple xs) = TTuple"

text \<open>What \<^verbatim>\<open>Any\<close> stands for in \<^verbatim>\<open>leva_conf: Dict[str, Any]\<close> and in the payload of
  a message: a value, a list, or a dictionary with string keys (in insertion order).\<close>

datatype conf =
    CVal pyval
  | CList "conf list"
  | CDict "(string \<times> conf) list"

type_synonym pydict = "(string \<times> conf) list"

text \<open>\<^verbatim>\<open>d[k] = v\<close>: an existing key keeps its place, a new key goes to the end.\<close>

fun dict_set :: "(string \<times> 'a) list \<Rightarrow> string \<Rightarrow> 'a \<Rightarrow> (string \<times> 'a) list" where
  "dict_set [] k v = [(k, v)]"
| "dict_set ((k', v') # kvs) k v =
     (if k' = k then (k, v) # kvs else (k', v') # dict_set kvs k v)"

text \<open>\<^verbatim>\<open>d[k]\<close>: raises \<^verbatim>\<open>KeyError\<close> for a missing key.\<close>

definition dict_get :: "(string \<times> 'a) list \<Rightarrow> string \<Rightarrow> exn + 'a" where
  "dict_get d k = (case map_of d k of None \<Rightarrow> Inl KeyError | Some v \<Rightarrow> Inr v)"

subsection \<open>The built-in constructors\<close>

text \<open>
  \<^verbatim>\<open>type(self._impl.value)(value)\<close> calls one of \<^verbatim>\<open>bool\<close>, \<^verbatim>\<open>int\<close>, \<^verbatim>\<open>float\<close>,
  \<^verbatim>\<open>str\<close>, \<^verbatim>\<open>tuple\<close>. The conversions that compute with digits or with the floating
  point format are not part of this program; they are taken as parameters, and every theorem
  below holds for all of them.
\<close>

record pyrt =
  str_of :: "pyval \<Rightarrow> string"
  int_of_str :: "string \<Rightarrow> int option"
  int_of_float :: "pyfloat \<Rightarrow> exn + int"
  float_of_int :: "int \<Rightarrow> exn + pyfloat"
  float_of_str :: "string \<Rightarrow> pyfloat option"
  float_of_npint :: "int \<Rightarrow> pyfloat"

text \<open>Truth value of a float: false for \<^verbatim>\<open>0.0\<close> and \<^verbatim>\<open>-0.0\<close> only.\<close>

definition float_truthy :: "pyfloat \<Rightarrow> bool" where
  "float_truthy f = (f \<noteq> 0 \<and> f \<noteq> 0x8000000000000000)"

fun truthy :: "pyval \<Rightarrow> bool" where
  "truthy (PBool b) = b"
| "truthy (PInt n) = (n \<noteq> 0)"
| "truthy (PFloat f) = float_truthy f"
| "truthy (PStr s) = (s \<noteq> [])"
| "truthy (PTuple xs) = (xs \<noteq> [])"

definition float_of_bool :: "bool \<Rightarrow> pyfloat" where
  "float_of_bool b = (if b then 0x3FF0000000000000 else 0)"

fun py_construct :: "pyrt \<Rightarrow> pytype \<Rightarrow> pyval \<Rightarrow> exn + pyval" where
  "py_construct rt TBool v = Inr (PBool (truthy v))"
| "py_construct rt TInt (PBool b) = Inr (PInt (if b then 1 else 0))"
| "py_construct rt TInt (PInt n) = Inr (PInt n)"
| "py_construct rt TInt (PFloat f) =
     (case int_of_float rt f of Inl e \<Rightarrow> Inl e | Inr n \<Rightarrow> Inr (PInt n))"
| "py_construct rt TInt (PStr s) =
     (case int_of_str rt s of None \<Rightarrow> Inl ValueError | Some n \<Rightarrow> Inr (PInt n))"
| "py_construct rt TInt (PTuple xs) = Inl TypeError"
| "py_construct rt TFloat (PBool b) = Inr (PFloat (float_of_bool b))"
| "py_construct rt TFloat (PInt n) =
     (case float_of_int rt n of Inl e \<Rightarrow> Inl e | Inr f \<Rightarrow> Inr (PFloat f))"
| "py_construct rt TFloat (PFloat f) = Inr (PFloat f)"
| "py_construct rt TFloat (PStr s) =
     (case float_of_str rt s of None \<Rightarrow> Inl ValueError | Some f \<Rightarrow> Inr (PFloat f))"
| "py_construct rt TFloat (PTuple xs) = Inl TypeError"
| "py_construct rt TStr (PStr s) = Inr (PStr s)"
| "py_construct rt TStr v = Inr (PStr (str_of rt v))"
| "py_construct rt TTuple (PTuple xs) = Inr (PTuple xs)"
| "py_construct rt TTuple (PStr s) = Inr (PTuple (map (\<lambda>c. PStr [c]) s))"
| "py_construct rt TTuple v = Inl TypeError"

subsection \<open>Numeric arrays\<close>

text \<open>An \<^verbatim>\<open>onp.ndarray\<close> of numbers: its shape and its items in order. Iterating over an
  array of one dimension yields its items; an array of no dimension cannot be iterated.\<close>

datatype npscalar = NpFloat pyfloat | NpInt int | NpBool bool

record ndarray =
  shape :: "nat list"
  items :: "npscalar list"

text \<open>\<^verbatim>\<open>float(x)\<close> for an item of the array. It never raises: a float item is that float,
  an integer item has at most 64 bits and is rounded by the runtime, a boolean item is
  \<^verbatim>\<open>1.0\<close> or \<^verbatim>\<open>0.0\<close>.\<close>

fun np_float :: "pyrt \<Rightarrow> npscalar \<Rightarrow> pyfloat" where
  "np_float rt (NpFloat f) = f"
| "np_float rt (NpInt n) = float_of_npint rt n"
| "np_float rt (NpBool b) = float_of_bool b"

text \<open>The argument of \<^verbatim>\<open>set_value\<close>, of type \<^verbatim>\<open>Union[T, onp.ndarray]\<close>.\<close>

datatype arg = Val pyval | Arr ndarray

text \<open>Lines 103 to 105: an array of more than one dimension fails the assertion, any other
  array becomes \<^verbatim>\<open>tuple(map(float, value))\<close>, any other value is kept.\<close>

fun as_value :: "pyrt \<Rightarrow> arg \<Rightarrow> exn + pyval" where
  "as_value rt (Val v) = Inr v"
| "as_value rt (Arr a) =
     (if \<not> length (shape a) \<le> 1 then Inl AssertionError
      else if shape a = [] then Inl TypeError
      else Inr (PTuple (map (\<lambda>x. PFloat (np_float rt x)) (items a))))"

section \<open>The state of a GUI input\<close>

datatype message =
    GuiSetValueMessage string conf
  | GuiSetLevaConfMessage string pydict
  | GuiSetHiddenMessage string bool
  | GuiRemoveMessage string

text \<open>Callbacks are code of the caller. A callback is known by a number, and each call of
  one is written to the field \<open>calls\<close>: an update callback with the value the handle shows
  at that moment, the cleanup callback alone. Callbacks are taken to return and to leave the
  record alone.\<close>

type_synonym callback = nat

datatype call = UpdateCall callback pyval | CleanupCall callback

text \<open>\<^verbatim>\<open>_GuiHandleState\<close>. The field \<open>api\<close> holds the messages that were handed to
  \<^verbatim>\<open>api._queue\<close>, oldest first, each as it was when it was queued. The fields \<^verbatim>\<open>typ\<close>
  and \<^verbatim>\<open>value\<close> are \<open>value_typ\<close> and \<open>cur_value\<close> here, and \<open>calls\<close> is the record of
  the callbacks that were called.\<close>

record gui_state =
  name :: string
  value_typ :: pytype
  api :: "message list"
  cur_value :: pyval
  last_updated :: pyfloat
  folder_labels :: "string list"
  update_cb :: "callback list"
  leva_conf :: pydict
  is_button :: bool
  sync_cb :: "callback option"
  cleanup_cb :: "callback option"
  encoder :: "pyval \<Rightarrow> conf"
  decoder :: "conf \<Rightarrow> pyval"
  calls :: "call list"

datatype outcome = Returned | Raised exn

definition api_queue :: "message \<Rightarrow> gui_state \<Rightarrow> gui_state" where
  "api_queue m s = s\<lparr>api := api s @ [m]\<rparr>"

section \<open>GuiHandle\<close>

definition on_update :: "gui_state \<Rightarrow> callback \<Rightarrow> gui_state" where
  "on_update s func = s\<lparr>update_cb := update_cb s @ [func]\<rparr>"

definition get_value :: "gui_state \<Rightarrow> pyval" where
  "get_value s = cur_value s"

definition get_update_timestamp :: "gui_state \<Rightarrow> pyfloat" where
  "get_update_timestamp s = last_updated s"

text \<open>\<^verbatim>\<open>for cb in self._impl.update_cb: cb(self)\<close>\<close>

fun call_update_cbs :: "callback list \<Rightarrow> gui_state \<Rightarrow> gui_state" where
  "call_update_cbs [] s = s"
| "call_update_cbs (cb # cbs) s =
     call_update_cbs cbs (s\<lparr>calls := calls s @ [UpdateCall cb (cur_value s)]\<rparr>)"

text \<open>\<^verbatim>\<open>set_value\<close>; \<open>now\<close> is what \<^verbatim>\<open>time.time()\<close> returns in this call.\<close>

definition set_value :: "pyrt \<Rightarrow> pyfloat \<Rightarrow> gui_state \<Rightarrow> arg \<Rightarrow> outcome \<times> gui_state" where
  "set_value rt now s a =
     (case as_value rt a of
        Inl e \<Rightarrow> (Raised e, s)
      | Inr v \<Rightarrow>
          let s1 = (if \<not> is_button s
                    then api_queue (GuiSetValueMessage (name s) (encoder s v)) s
                    else s)
          in (case py_construct rt (type_of (cur_value s1)) v of
                Inl e \<Rightarrow> (Raised e, s1)
              | Inr v' \<Rightarrow>
                  let s2 = s1\<lparr>cur_value := v'\<rparr>;
                      s3 = s2\<lparr>last_updated := now\<rparr>
                  in (Returned, call_update_cbs (update_cb s3) s3)))"

definition set_disabled :: "gui_state \<Rightarrow> bool \<Rightarrow> outcome \<times> gui_state" where
  "set_disabled s disabled =
     (if is_button s then
        (case dict_get (leva_conf s) ''settings'' of
           Inl e \<Rightarrow> (Raised e, s)
         | Inr (CDict settings) \<Rightarrow>
             let s1 = s\<lparr>leva_conf := dict_set (leva_conf s) ''settings''
                          (CDict (dict_set settings ''disabled'' (CVal (PBool disabled))))\<rparr>
             in (Returned, api_queue (GuiSetLevaConfMessage (name s1) (leva_conf s1)) s1)
         | Inr _ \<Rightarrow> (Raised TypeError, s))
      else
        let s1 = s\<lparr>leva_conf := dict_set (leva_conf s) ''disabled'' (CVal (PBool disabled))\<rparr>
        in (Returned, api_queue (GuiSetLevaConfMessage (name s1) (leva_conf s1)) s1))"

definition set_hidden :: "gui_state \<Rightarrow> bool \<Rightarrow> outcome \<times> gui_state" where
  "set_hidden s hidden = (Returned, api_queue (GuiSetHiddenMessage (name s) hidden) s)"

definition remove :: "gui_state \<Rightarrow> outcome \<times> gui_state" where
  "remove s =
     (let s1 = api_queue (GuiRemoveMessage (name s)) s
      in (case cleanup_cb s1 of
            None \<Rightarrow> (Raised AssertionError, s1)
          | Some cb \<Rightarrow> (Returned, s1\<lparr>calls := calls s1 @ [CleanupCall cb]\<rparr>)))"

section \<open>GuiSelectHandle\<close>

text \<open>\<^verbatim>\<open>x in options\<close> for a list of strings: only an equal string is a member.\<close>

fun conf_in :: "conf \<Rightarrow> string list \<Rightarrow> bool" where
  "conf_in (CVal (PStr x)) options = (x \<in> set options)"
| "conf_in c options = False"

definition set_options :: "pyrt \<Rightarrow> pyfloat \<Rightarrow> gui_state \<Rightarrow> string list \<Rightarrow> outcome \<times> gui_state" where
  "set_options rt now s options =
     (let s1 = s\<lparr>leva_conf := dict_set (leva_conf s) ''options''
                    (CList (map (\<lambda>x. CVal (PStr x)) options))\<rparr>
      in (case dict_get (leva_conf s1) ''value'' of
            Inl e \<Rightarrow> (Raised e, s1)
          | Inr c \<Rightarrow>
              if \<not> conf_in c options then
                (case options of
                   [] \<Rightarrow> (Raised IndexError, s1)
                 | x # _ \<Rightarrow>
                     let s2 = s1\<lparr>leva_conf := dict_set (leva_conf s1) ''value'' (CVal (PStr x))\<rparr>;
                         s3 = api_queue (GuiSetLevaConfMessage (name s2) (leva_conf s2)) s2
                     in set_value rt now s3 (Val (PStr x)))
              else
                (Returned, api_queue (GuiSetLevaConfMessage (name s1) (leva_conf s1)) s1)))"

section \<open>Sample inputs\<close>

text \<open>A runtime for the evaluations below. It is exact on the one conversion they reach,
  the string form of the tuple \<^verbatim>\<open>(1.0, 2.0, 3.0)\<close>.\<close>

definition rt_demo :: pyrt where
  "rt_demo = \<lparr>str_of = (\<lambda>v. if v = PTuple [PFloat 0x3FF0000000000000, PFloat 0x4000000000000000,
                                       PFloat 0x4008000000000000]
                         then ''(1.0, 2.0, 3.0)'' else []),
     int_of_str = (\<lambda>s. None),
     int_of_float = (\<lambda>f. Inl OverflowError), float_of_int = (\<lambda>n. Inl OverflowError),
     float_of_str = (\<lambda>s. None), float_of_npint = (\<lambda>n. 0)\<rparr>"

text \<open>A dropdown with the options a, b, c, showing b, with two update callbacks.\<close>

definition sel0 :: gui_state where
  "sel0 = \<lparr>name = ''sel'', value_typ = TStr, api = [], cur_value = PStr ''b'',
     last_updated = 0, folder_labels = [], update_cb = [1, 2],
     leva_conf = [(''value'', CVal (PStr ''b'')),
                  (''options'', CList [CVal (PStr ''a''), CVal (PStr ''b''), CVal (PStr ''c'')])],
     is_button = False, sync_cb = None, cleanup_cb = Some 7,
     encoder = CVal, decoder = (\<lambda>c. case c of CVal v \<Rightarrow> v | _ \<Rightarrow> PStr []), calls = []\<rparr>"

text \<open>The same dropdown after the option a was chosen with \<^verbatim>\<open>set_value("a")\<close> at time 5.\<close>

definition sel1 :: gui_state where
  "sel1 = snd (set_value rt_demo 5 sel0 (Val (PStr ''a'')))"

text \<open>A vector input holding three floats, all \<^verbatim>\<open>0.0\<close>.\<close>

definition vec0 :: gui_state where
  "vec0 = \<lparr>name = ''pos'', value_typ = TTuple, api = [],
     cur_value = PTuple [PFloat 0, PFloat 0, PFloat 0],
     last_updated = 0, folder_labels = [''scene''], update_cb = [3],
     leva_conf = [(''value'', CVal (PTuple [PFloat 0, PFloat 0, PFloat 0]))],
     is_button = False, sync_cb = None, cleanup_cb = Some 8,
     encoder = CVal, decoder = (\<lambda>c. case c of CVal v \<Rightarrow> v | _ \<Rightarrow> PTuple []), calls = []\<rparr>"

text \<open>A number input holding the float \<^verbatim>\<open>0.0\<close>, with one update callback.\<close>

definition num0 :: gui_state where
  "num0 = \<lparr>name = ''gain'', value_typ = TFloat, api = [], cur_value = PFloat 0,
     last_updated = 0, folder_labels = [], update_cb = [6],
     leva_conf = [(''value'', CVal (PFloat 0))],
     is_button = False, sync_cb = None, cleanup_cb = Some 9,
     encoder = CVal, decoder = (\<lambda>c. case c of CVal v \<Rightarrow> v | _ \<Rightarrow> PFloat 0), calls = []\<rparr>"

text \<open>The array \<^verbatim>\<open>onp.array([1.0, 2.0, 3.0])\<close>.\<close>

definition arr123 :: ndarray where
  "arr123 = \<lparr>shape = [3],
     items = [NpFloat 0x3FF0000000000000, NpFloat 0x4000000000000000, NpFloat 0x4008000000000000]\<rparr>"

text \<open>The array \<^verbatim>\<open>onp.array([True, False])\<close>.\<close>

definition arrTF :: ndarray where
  "arrTF = \<lparr>shape = [2], items = [NpBool True, NpBool False]\<rparr>"

text \<open>An array of two rows and two columns.\<close>

definition arr2x2 :: ndarray where
  "arr2x2 = \<lparr>shape = [2, 2], items = [NpInt 1, NpInt 2, NpInt 3, NpInt 4]\<rparr>"

text \<open>A button with two update callbacks and no cleanup callback.\<close>

definition btn0 :: gui_state where
  "btn0 = \<lparr>name = ''go'', value_typ = TBool, api = [], cur_value = PBool False,
     last_updated = 0, folder_labels = [], update_cb = [4, 5],
     leva_conf = [(''type'', CVal (PStr ''BUTTON'')), (''settings'', CDict [])],
     is_button = True, sync_cb = None, cleanup_cb = None,
     encoder = CVal, decoder = (\<lambda>c. case c of CVal v \<Rightarrow> v | _ \<Rightarrow> PBool False), calls = []\<rparr>"

section \<open>Facts about the building blocks\<close>

lemma map_of_dict_set: "map_of (dict_set d k v) = (map_of d)(k \<mapsto> v)"
  by (induction d) (auto simp: fun_eq_iff)

text \<open>The loop over the callbacks calls each registered callback once, in the order of
  registration, and every one of them sees the same value.\<close>

lemma call_update_cbs_eq:
  "call_update_cbs cbs s = s\<lparr>calls := calls s @ map (\<lambda>cb. UpdateCall cb (cur_value s)) cbs\<rparr>"
  by (induction cbs arbitrary: s) auto

text \<open>A constructor returns a value of its own type, and returns a value of its own type
  as it is.\<close>

lemma py_construct_type: "py_construct rt T v = Inr v' \<Longrightarrow> type_of v' = T"
  by (cases "(rt, T, v)" rule: py_construct.cases) (auto split: sum.splits option.splits)

lemma py_construct_same: "py_construct rt (type_of v) v = Inr v"
  by (cases v) auto

text \<open>What the constructors make of a tuple: \<^verbatim>\<open>tuple\<close> keeps it, \<^verbatim>\<open>bool\<close> tells whether
  it has an item, \<^verbatim>\<open>str\<close> prints it, \<^verbatim>\<open>int\<close> and \<^verbatim>\<open>float\<close> raise.\<close>

lemma py_construct_tuple:
  "py_construct rt T (PTuple xs) =
     (case T of TTuple \<Rightarrow> Inr (PTuple xs) | TBool \<Rightarrow> Inr (PBool (xs \<noteq> []))
      | TStr \<Rightarrow> Inr (PStr (str_of rt (PTuple xs))) | TInt \<Rightarrow> Inl TypeError
      | TFloat \<Rightarrow> Inl TypeError)"
  by (cases T) auto

section \<open>set_value\<close>

text \<open>
  C7. \<^verbatim>\<open>set_value\<close> with an array of two or more dimensions raises the assertion error
  and leaves the whole record as it was: the value, the time stamp and the display
  configuration are not written, no message is queued and no callback is called.
\<close>

theorem set_value_rank2_rejected:
  "2 \<le> length (shape a) \<Longrightarrow> set_value rt now s (Arr a) = (Raised AssertionError, s)"
  by (simp add: set_value_def)

theorem set_value_rank2_rejected_witness:
  "2 \<le> length (shape arr2x2)
   \<and> set_value rt_demo 9 sel0 (Arr arr2x2) = (Raised AssertionError, sel0)"
proof -
  have h: "2 \<le> length (shape arr2x2)" by (simp add: arr2x2_def)
  from set_value_rank2_rejected [OF h] show ?thesis using h by simp
qed

text \<open>
  C5, as amended. Take a control whose declared type is the type of its stored value.
  After \<^verbatim>\<open>set_value(v)\<close> with a value \<open>v\<close> of that type, \<^verbatim>\<open>get_value\<close> returns \<open>v\<close>.
  After \<^verbatim>\<open>set_value\<close> with a numeric array of one dimension, on a control that holds a
  tuple, a boolean or a string, \<^verbatim>\<open>get_value\<close> returns the tuple of the items as floats,
  coerced to the type of the control: the tuple itself, whether it has an item, or its
  string form. In both cases the call returns, the time stamp is the time of the call and
  the stored value has the declared type.
\<close>

theorem set_value_get_value:
  assumes "value_typ s = type_of (cur_value s)"
  shows "(type_of v = value_typ s \<longrightarrow>
            fst (set_value rt now s (Val v)) = Returned
          \<and> get_value (snd (set_value rt now s (Val v))) = v
          \<and> get_update_timestamp (snd (set_value rt now s (Val v))) = now
          \<and> value_typ (snd (set_value rt now s (Val v))) = type_of v)
       \<and> (length (shape a) = 1 \<and> value_typ s \<noteq> TInt \<and> value_typ s \<noteq> TFloat \<longrightarrow>
            fst (set_value rt now s (Arr a)) = Returned
          \<and> get_value (snd (set_value rt now s (Arr a))) =
              (case value_typ s of
                 TBool \<Rightarrow> PBool (items a \<noteq> [])
               | TStr \<Rightarrow> PStr (str_of rt (PTuple (map (\<lambda>x. PFloat (case x of
                     NpFloat f \<Rightarrow> f | NpInt n \<Rightarrow> float_of_npint rt n
                   | NpBool b \<Rightarrow> (if b then 0x3FF0000000000000 else 0))) (items a))))
               | _ \<Rightarrow> PTuple (map (\<lambda>x. PFloat (case x of
                     NpFloat f \<Rightarrow> f | NpInt n \<Rightarrow> float_of_npint rt n
                   | NpBool b \<Rightarrow> (if b then 0x3FF0000000000000 else 0))) (items a)))
          \<and> get_update_timestamp (snd (set_value rt now s (Arr a))) = now
          \<and> type_of (get_value (snd (set_value rt now s (Arr a)))) = value_typ s)"
proof -
  have np: "np_float rt = (\<lambda>x. case x of NpFloat f \<Rightarrow> f | NpInt n \<Rightarrow> float_of_npint rt n
                   | NpBool b \<Rightarrow> (if b then 0x3FF0000000000000 else 0))"
    by (auto simp: fun_eq_iff float_of_bool_def split: npscalar.splits)
  have A: "type_of v = value_typ s \<Longrightarrow>
            fst (set_value rt now s (Val v)) = Returned
          \<and> get_value (snd (set_value rt now s (Val v))) = v
          \<and> get_update_timestamp (snd (set_value rt now s (Val v))) = now
          \<and> value_typ (snd (set_value rt now s (Val v))) = type_of v"
    using assms py_construct_same [of rt v]
    by (simp add: set_value_def api_queue_def call_update_cbs_eq get_value_def
        get_update_timestamp_def Let_def)
  have B: "length (shape a) = 1 \<Longrightarrow> value_typ s \<noteq> TInt \<Longrightarrow> value_typ s \<noteq> TFloat \<Longrightarrow>
            fst (set_value rt now s (Arr a)) = Returned
          \<and> get_value (snd (set_value rt now s (Arr a))) =
              (case value_typ s of
                 TBool \<Rightarrow> PBool (items a \<noteq> [])
               | TStr \<Rightarrow> PStr (str_of rt (PTuple (map (\<lambda>x. PFloat (np_float rt x)) (items a))))
               | _ \<Rightarrow> PTuple (map (\<lambda>x. PFloat (np_float rt x)) (items a)))
          \<and> get_update_timestamp (snd (set_value rt now s (Arr a))) = now
          \<and> type_of (get_value (snd (set_value rt now s (Arr a)))) = value_typ s"
  proof -
    assume r: "length (shape a) = 1" and t: "value_typ s \<noteq> TInt" "value_typ s \<noteq> TFloat"
    have sh: "shape a \<noteq> []" using r by auto
    show ?thesis
      using assms r sh t
      by (cases "value_typ s")
        (simp_all add: set_value_def api_queue_def call_update_cbs_eq get_value_def
          get_update_timestamp_def Let_def py_construct_tuple)
  qed
  show ?thesis using A B unfolding np by blast
qed

theorem set_value_get_value_witness:
  "value_typ sel0 = type_of (cur_value sel0) \<and> type_of (PStr ''c'') = value_typ sel0
   \<and> get_value (snd (set_value rt_demo 9 sel0 (Val (PStr ''c'')))) = PStr ''c''
   \<and> get_update_timestamp (snd (set_value rt_demo 9 sel0 (Val (PStr ''c'')))) = 9
   \<and> value_typ vec0 = type_of (cur_value vec0) \<and> length (shape arr123) = 1
   \<and> value_typ vec0 \<noteq> TInt \<and> value_typ vec0 \<noteq> TFloat
   \<and> fst (set_value rt_demo 9 vec0 (Arr arr123)) = Returned
   \<and> get_value (snd (set_value rt_demo 9 vec0 (Arr arr123))) =
       PTuple [PFloat 0x3FF0000000000000, PFloat 0x4000000000000000, PFloat 0x4008000000000000]
   \<and> get_update_timestamp (snd (set_value rt_demo 9 vec0 (Arr arr123))) = 9
   \<and> value_typ btn0 = type_of (cur_value btn0) \<and> length (shape arrTF) = 1
   \<and> value_typ btn0 \<noteq> TInt \<and> value_typ btn0 \<noteq> TFloat
   \<and> get_value (snd (set_value rt_demo 9 btn0 (Arr arrTF))) = PBool True
   \<and> get_value (snd (set_value rt_demo 9 sel0 (Arr arr123))) = PStr ''(1.0, 2.0, 3.0)''"
proof -
  have s0: "value_typ sel0 = type_of (cur_value sel0)" by (simp add: sel0_def)
  have v0: "value_typ vec0 = type_of (cur_value vec0)" by (simp add: vec0_def)
  have b0: "value_typ btn0 = type_of (cur_value btn0)" by (simp add: btn0_def)
  have t: "value_typ sel0 = TStr" "value_typ vec0 = TTuple" "value_typ btn0 = TBool"
    by (simp_all add: sel0_def vec0_def btn0_def)
  have a1: "length (shape arr123) = 1" "length (shape arrTF) = 1"
    "items arr123 = [NpFloat 0x3FF0000000000000, NpFloat 0x4000000000000000,
                     NpFloat 0x4008000000000000]"
    "items arrTF = [NpBool True, NpBool False]"
    by (simp_all add: arr123_def arrTF_def)
  have r: "str_of rt_demo (PTuple [PFloat 0x3FF0000000000000, PFloat 0x4000000000000000,
             PFloat 0x4008000000000000]) = ''(1.0, 2.0, 3.0)''"
    by (simp add: rt_demo_def)
  from set_value_get_value [OF s0, where v = "PStr ''c''" and a = arr123 and rt = rt_demo and now = 9]
  have e1: "get_value (snd (set_value rt_demo 9 sel0 (Val (PStr ''c'')))) = PStr ''c''
     \<and> get_update_timestamp (snd (set_value rt_demo 9 sel0 (Val (PStr ''c'')))) = 9
     \<and> get_value (snd (set_value rt_demo 9 sel0 (Arr arr123))) = PStr ''(1.0, 2.0, 3.0)''"
    by (simp add: t a1 r)
  from set_value_get_value [OF v0, where v = "PStr ''c''" and a = arr123 and rt = rt_demo and now = 9]
  have e2: "fst (set_value rt_demo 9 vec0 (Arr arr123)) = Returned
     \<and> get_value (snd (set_value rt_demo 9 vec0 (Arr arr123))) =
         PTuple [PFloat 0x3FF0000000000000, PFloat 0x4000000000000000, PFloat 0x4008000000000000]
     \<and> get_update_timestamp (snd (set_value rt_demo 9 vec0 (Arr arr123))) = 9"
    by (simp add: t a1)
  from set_value_get_value [OF b0, where v = "PStr ''c''" and a = arrTF and rt = rt_demo and now = 9]
  have e3: "get_value (snd (set_value rt_demo 9 btn0 (Arr arrTF))) = PBool True"
    by (simp add: t a1)
  show ?thesis
    using s0 v0 b0 e1 e2 e3 by (simp add: t a1)
qed

text \<open>C5 as it is written fails for an array on a control that holds a float: the value
  message with the tuple is queued, then \<^verbatim>\<open>float\<close> of a tuple raises the type error, and
  the stored value and the time stamp stay as they were.\<close>

theorem set_value_array_on_float_counterexample:
  "length (shape arr123) = 1 \<and> value_typ num0 = type_of (cur_value num0)
   \<and> set_value rt_demo 9 num0 (Arr arr123) =
       (Raised TypeError,
        num0\<lparr>api := [GuiSetValueMessage ''gain''
           (CVal (PTuple [PFloat 0x3FF0000000000000, PFloat 0x4000000000000000,
                          PFloat 0x4008000000000000]))]\<rparr>)
   \<and> get_value (snd (set_value rt_demo 9 num0 (Arr arr123))) = PFloat 0
   \<and> get_update_timestamp (snd (set_value rt_demo 9 num0 (Arr arr123))) = 0"
  by (simp add: num0_def arr123_def set_value_def api_queue_def get_value_def
      get_update_timestamp_def)

text \<open>
  C6. On a button, \<^verbatim>\<open>set_value\<close> queues no message at all, whatever the argument and the
  outcome. With an accepted argument it still stores the value, sets the time stamp to the
  time of the call and calls every registered update callback once, in the order of
  registration, with the new value.
\<close>

theorem set_value_button:
  assumes "is_button s"
  shows "api (snd (set_value rt now s a)) = api s
       \<and> (as_value rt a = Inr v \<and> py_construct rt (type_of (cur_value s)) v = Inr v' \<longrightarrow>
            set_value rt now s a =
              (Returned, s\<lparr>cur_value := v', last_updated := now,
                            calls := calls s @ map (\<lambda>cb. UpdateCall cb v') (update_cb s)\<rparr>))"
  using assms by (simp add: set_value_def call_update_cbs_eq Let_def split: sum.splits)

theorem set_value_button_witness:
  "is_button btn0 \<and> as_value rt_demo (Val (PBool True)) = Inr (PBool True)
   \<and> py_construct rt_demo (type_of (cur_value btn0)) (PBool True) = Inr (PBool True)
   \<and> set_value rt_demo 9 btn0 (Val (PBool True)) =
       (Returned, btn0\<lparr>cur_value := PBool True, last_updated := 9,
                        calls := [UpdateCall 4 (PBool True), UpdateCall 5 (PBool True)]\<rparr>)
   \<and> api (snd (set_value rt_demo 9 btn0 (Val (PBool True)))) = []"
proof -
  have h1: "is_button btn0" by (simp add: btn0_def)
  have h2: "as_value rt_demo (Val (PBool True)) = Inr (PBool True)" by simp
  have h3: "py_construct rt_demo (type_of (cur_value btn0)) (PBool True) = Inr (PBool True)"
    by (simp add: btn0_def)
  have c: "api btn0 = []" "calls btn0 = []" "update_cb btn0 = [4, 5]"
    by (simp_all add: btn0_def)
  from set_value_button [OF h1, of rt_demo 9 "Val (PBool True)" "PBool True" "PBool True"] h2 h3
  show ?thesis using h1 by (simp add: c)
qed



section \<open>remove\<close>

text \<open>
  C8. \<^verbatim>\<open>remove\<close> on a control with a cleanup callback queues exactly one remove message,
  calls the cleanup callback exactly once and returns; on a control without a cleanup
  callback it raises the assertion error.
\<close>

theorem remove_cleanup:
  "(cleanup_cb s = Some cb \<longrightarrow>
      remove s = (Returned, s\<lparr>api := api s @ [GuiRemoveMessage (name s)],
                               calls := calls s @ [CleanupCall cb]\<rparr>))
   \<and> (cleanup_cb s = None \<longrightarrow> fst (remove s) = Raised AssertionError)"
  by (simp add: remove_def api_queue_def)

theorem remove_cleanup_witness:
  "cleanup_cb sel0 = Some 7
   \<and> remove sel0 = (Returned, sel0\<lparr>api := [GuiRemoveMessage ''sel''], calls := [CleanupCall 7]\<rparr>)
   \<and> cleanup_cb btn0 = None
   \<and> fst (remove btn0) = Raised AssertionError"
proof -
  have h1: "cleanup_cb sel0 = Some 7" by (simp add: sel0_def)
  have h2: "cleanup_cb btn0 = None" by (simp add: btn0_def)
  from remove_cleanup [of sel0 7] h1
  have r1: "remove sel0 = (Returned, sel0\<lparr>api := api sel0 @ [GuiRemoveMessage (name sel0)],
                               calls := calls sel0 @ [CleanupCall 7]\<rparr>)"
    by blast
  from remove_cleanup [of btn0] h2
  have r2: "fst (remove btn0) = Raised AssertionError"
    by blast
  show ?thesis using h1 h2 r2 by (simp add: r1) (simp add: sel0_def)
qed

text \<open>
  C10. When \<^verbatim>\<open>remove\<close> is called on a control without a cleanup callback, the assertion
  error is raised after the remove message was queued: the record after the failed call has
  the message at the end of the queue, and nothing else is changed.
\<close>

theorem remove_not_atomic:
  "cleanup_cb s = None \<Longrightarrow>
     remove s = (Raised AssertionError, s\<lparr>api := api s @ [GuiRemoveMessage (name s)]\<rparr>)"
  by (simp add: remove_def api_queue_def)

theorem remove_not_atomic_witness:
  "cleanup_cb btn0 = None
   \<and> remove btn0 = (Raised AssertionError, btn0\<lparr>api := [GuiRemoveMessage ''go'']\<rparr>)"
proof -
  have h: "cleanup_cb btn0 = None" by (simp add: btn0_def)
  from remove_not_atomic [OF h] show ?thesis using h by (simp add: btn0_def)
qed

section \<open>set_disabled\<close>

text \<open>
  C9. On a control that is not a button, \<^verbatim>\<open>set_disabled(True)\<close> followed by
  \<^verbatim>\<open>set_disabled(False)\<close> both return, the entry \<^verbatim>\<open>"disabled"\<close> at the top of the display
  configuration is true after the first call and false after the second, and the two calls
  queue exactly two configuration messages, one each. On a button whose configuration has
  the dictionary \<^verbatim>\<open>"settings"\<close>, a call writes the entry \<^verbatim>\<open>"disabled"\<close> inside that
  dictionary instead, queues one configuration message, and leaves the entry at the top as
  it was.
\<close>

theorem set_disabled_twice:
  "(\<not> is_button s \<longrightarrow>
      (\<exists>s1 s2. set_disabled s True = (Returned, s1) \<and> set_disabled s1 False = (Returned, s2)
        \<and> map_of (leva_conf s1) ''disabled'' = Some (CVal (PBool True))
        \<and> map_of (leva_conf s2) ''disabled'' = Some (CVal (PBool False))
        \<and> api s2 = api s @ [GuiSetLevaConfMessage (name s) (leva_conf s1),
                             GuiSetLevaConfMessage (name s) (leva_conf s2)]))
   \<and> (is_button s \<and> map_of (leva_conf s) ''settings'' = Some (CDict d) \<longrightarrow>
        set_disabled s b =
          (Returned,
           s\<lparr>leva_conf := dict_set (leva_conf s) ''settings''
                (CDict (dict_set d ''disabled'' (CVal (PBool b)))),
             api := api s @ [GuiSetLevaConfMessage (name s)
                (dict_set (leva_conf s) ''settings''
                   (CDict (dict_set d ''disabled'' (CVal (PBool b)))))]\<rparr>)
        \<and> map_of (leva_conf (snd (set_disabled s b))) ''disabled'' = map_of (leva_conf s) ''disabled'')"
  by (simp add: set_disabled_def api_queue_def dict_get_def map_of_dict_set Let_def)

theorem set_disabled_twice_witness:
  "\<not> is_button sel0
   \<and> map_of (leva_conf (snd (set_disabled (snd (set_disabled sel0 True)) False))) ''disabled'' =
       Some (CVal (PBool False))
   \<and> length (api (snd (set_disabled (snd (set_disabled sel0 True)) False))) = 2
   \<and> is_button btn0 \<and> map_of (leva_conf btn0) ''settings'' = Some (CDict [])
   \<and> set_disabled btn0 True =
       (Returned,
        btn0\<lparr>leva_conf := [(''type'', CVal (PStr ''BUTTON'')),
                            (''settings'', CDict [(''disabled'', CVal (PBool True))])],
              api := [GuiSetLevaConfMessage ''go''
                        [(''type'', CVal (PStr ''BUTTON'')),
                         (''settings'', CDict [(''disabled'', CVal (PBool True))])]]\<rparr>)"
proof -
  have h1: "\<not> is_button sel0" by (simp add: sel0_def)
  have h2: "is_button btn0 \<and> map_of (leva_conf btn0) ''settings'' = Some (CDict [])"
    by (simp add: btn0_def)
  from set_disabled_twice [of sel0] h1
  obtain s1 s2 where r: "set_disabled sel0 True = (Returned, s1)"
      "set_disabled s1 False = (Returned, s2)"
      "map_of (leva_conf s2) ''disabled'' = Some (CVal (PBool False))"
      "api s2 = api sel0 @ [GuiSetLevaConfMessage (name sel0) (leva_conf s1),
                            GuiSetLevaConfMessage (name sel0) (leva_conf s2)]"
    by blast
  from set_disabled_twice [of btn0 "[]" True] h2
  have b: "set_disabled btn0 True =
          (Returned,
           btn0\<lparr>leva_conf := dict_set (leva_conf btn0) ''settings''
                (CDict (dict_set [] ''disabled'' (CVal (PBool True)))),
             api := api btn0 @ [GuiSetLevaConfMessage (name btn0)
                (dict_set (leva_conf btn0) ''settings''
                   (CDict (dict_set [] ''disabled'' (CVal (PBool True)))))]\<rparr>)"
    by blast
  have b': "set_disabled btn0 True =
       (Returned,
        btn0\<lparr>leva_conf := [(''type'', CVal (PStr ''BUTTON'')),
                            (''settings'', CDict [(''disabled'', CVal (PBool True))])],
              api := [GuiSetLevaConfMessage ''go''
                        [(''type'', CVal (PStr ''BUTTON'')),
                         (''settings'', CDict [(''disabled'', CVal (PBool True))])]]\<rparr>)"
    unfolding b by (simp add: btn0_def)
  have a: "api sel0 = []" by (simp add: sel0_def)
  show ?thesis using h1 h2 r b' a by simp
qed

section \<open>set_options\<close>

text \<open>
  \<^verbatim>\<open>set_options\<close> writes the new options into the configuration and then repairs the
  value: with \<^verbatim>\<open>overwrite_value\<close> set it calls \<^verbatim>\<open>set_value(options[0])\<close>, so that the
  control does not keep a value that is no option. Whether it repairs is decided at line 166
  by \<^verbatim>\<open>leva_conf["value"]\<close>. This entry is the stored value when the control is made, but
  \<^verbatim>\<open>set_value\<close> writes the stored value only, so after any \<^verbatim>\<open>set_value\<close> that changes the
  value the test looks at the value before that change. The two lemmas say what the call
  does in terms of the entry.
\<close>

lemma set_options_entry_not_member:
  assumes "\<not> is_button s" and "type_of (cur_value s) = TStr"
      and "map_of (leva_conf s) ''value'' = Some c"
      and "\<not> conf_in c opts" and "opts \<noteq> []"
  shows "fst (set_options rt now s opts) = Returned
       \<and> api (snd (set_options rt now s opts)) =
           api s @ [GuiSetLevaConfMessage (name s)
                      (dict_set (dict_set (leva_conf s) ''options''
                         (CList (map (\<lambda>x. CVal (PStr x)) opts))) ''value'' (CVal (PStr (hd opts)))),
                    GuiSetValueMessage (name s) (encoder s (PStr (hd opts)))]
       \<and> cur_value (snd (set_options rt now s opts)) = PStr (hd opts)
       \<and> calls (snd (set_options rt now s opts)) =
           calls s @ map (\<lambda>cb. UpdateCall cb (PStr (hd opts))) (update_cb s)"
proof -
  obtain x xs where opts: "opts = x # xs"
    using assms(5) by (cases opts) auto
  show ?thesis
    using assms(1-4)
    by (simp add: opts set_options_def set_value_def api_queue_def dict_get_def
        map_of_dict_set call_update_cbs_eq Let_def)
qed

lemma set_options_entry_member:
  assumes "map_of (leva_conf s) ''value'' = Some c" and "conf_in c opts"
  shows "set_options rt now s opts =
           (Returned,
            s\<lparr>leva_conf := dict_set (leva_conf s) ''options'' (CList (map (\<lambda>x. CVal (PStr x)) opts)),
              api := api s @ [GuiSetLevaConfMessage (name s)
                 (dict_set (leva_conf s) ''options'' (CList (map (\<lambda>x. CVal (PStr x)) opts)))]\<rparr>)"
  using assms
  by (simp add: set_options_def api_queue_def dict_get_def map_of_dict_set Let_def)

text \<open>
  C1. When the stored value of a dropdown is not among the new options, \<^verbatim>\<open>set_options\<close>
  is to queue one configuration message and one value message with the first option, store
  the first option and call every update callback once. The code does not do so on the
  sample dropdown after the option a was chosen with \<^verbatim>\<open>set_value("a")\<close>: with the new
  options b, c the stored value a is no option, but the configuration still says b, which
  is one. The call returns with the configuration message as the only message queued, the
  stored value is still a, and no callback is called.
\<close>

theorem set_options_stale_not_repaired:
  "cur_value sel1 = PStr ''a'' \<and> ''a'' \<notin> set [''b'', ''c'']
   \<and> fst (set_options rt_demo 9 sel1 [''b'', ''c'']) = Returned
   \<and> api (snd (set_options rt_demo 9 sel1 [''b'', ''c''])) =
       api sel1 @ [GuiSetLevaConfMessage ''sel''
          [(''value'', CVal (PStr ''b'')), (''options'', CList [CVal (PStr ''b''), CVal (PStr ''c'')])]]
   \<and> cur_value (snd (set_options rt_demo 9 sel1 [''b'', ''c''])) = PStr ''a''
   \<and> calls (snd (set_options rt_demo 9 sel1 [''b'', ''c''])) = calls sel1"
  by (simp add: sel1_def sel0_def rt_demo_def set_options_def set_value_def api_queue_def
      dict_get_def Let_def)

text \<open>
  C2. When the stored value of a dropdown is among the new options, \<^verbatim>\<open>set_options\<close> is to
  queue one configuration message and nothing else, call no callback and leave the stored
  value and the time stamp as they are. The code does not do so on the sample dropdown after
  the option a was chosen with \<^verbatim>\<open>set_value("a")\<close> at time 5: with the new options c, a the
  stored value a is an option, but the configuration still says b, which is none. The
  stored value is overwritten with c, a value message with c is queued after the
  configuration message, the time stamp moves from 5 to 9, and both callbacks are called.
\<close>

theorem set_options_member_overwritten:
  "cur_value sel1 = PStr ''a'' \<and> ''a'' \<in> set [''c'', ''a'']
   \<and> api (snd (set_options rt_demo 9 sel1 [''c'', ''a''])) =
       api sel1 @ [GuiSetLevaConfMessage ''sel''
          [(''value'', CVal (PStr ''c'')), (''options'', CList [CVal (PStr ''c''), CVal (PStr ''a'')])],
          GuiSetValueMessage ''sel'' (CVal (PStr ''c''))]
   \<and> cur_value (snd (set_options rt_demo 9 sel1 [''c'', ''a''])) = PStr ''c''
   \<and> last_updated sel1 = 5
   \<and> last_updated (snd (set_options rt_demo 9 sel1 [''c'', ''a''])) = 9
   \<and> calls (snd (set_options rt_demo 9 sel1 [''c'', ''a''])) =
       calls sel1 @ [UpdateCall 1 (PStr ''c''), UpdateCall 2 (PStr ''c'')]"
  by (simp add: sel1_def sel0_def rt_demo_def set_options_def set_value_def api_queue_def
      dict_get_def Let_def)

text \<open>
  C3, as amended. When \<^verbatim>\<open>set_options\<close> repairs the value (the configuration entry
  \<^verbatim>\<open>"value"\<close> is not among the options, and there is a first option), the configuration
  message it queues already carries the first option in its entry \<^verbatim>\<open>"value"\<close>: the entry is
  overwritten before the message is queued. On a control that is not a button the value
  message with the encoded first option follows; on a button nothing follows.
\<close>

theorem set_options_config_message:
  assumes "map_of (leva_conf s) ''value'' = Some c"
      and "\<not> conf_in c opts" and "opts \<noteq> []"
  shows "api (snd (set_options rt now s opts)) =
           api s @ GuiSetLevaConfMessage (name s)
                     (dict_set (dict_set (leva_conf s) ''options''
                        (CList (map (\<lambda>x. CVal (PStr x)) opts))) ''value'' (CVal (PStr (hd opts)))) #
             (if is_button s then [] else [GuiSetValueMessage (name s) (encoder s (PStr (hd opts)))])
         \<and> map_of (dict_set (dict_set (leva_conf s) ''options''
                        (CList (map (\<lambda>x. CVal (PStr x)) opts))) ''value'' (CVal (PStr (hd opts))))
               ''value'' = Some (CVal (PStr (hd opts)))"
proof -
  obtain x xs where opts: "opts = x # xs"
    using assms(3) by (cases opts) auto
  show ?thesis
    using assms(1,2)
    by (simp add: opts set_options_def set_value_def api_queue_def dict_get_def
        map_of_dict_set call_update_cbs_eq Let_def split: sum.splits)
qed

theorem set_options_config_message_witness:
  "map_of (leva_conf sel0) ''value'' = Some (CVal (PStr ''b''))
   \<and> \<not> conf_in (CVal (PStr ''b'')) [''x'', ''y''] \<and> [''x'', ''y''] \<noteq> []
   \<and> api (snd (set_options rt_demo 9 sel0 [''x'', ''y''])) =
       [GuiSetLevaConfMessage ''sel''
          [(''value'', CVal (PStr ''x'')), (''options'', CList [CVal (PStr ''x''), CVal (PStr ''y'')])],
        GuiSetValueMessage ''sel'' (CVal (PStr ''x''))]"
proof -
  have h1: "map_of (leva_conf sel0) ''value'' = Some (CVal (PStr ''b''))"
    by (simp add: sel0_def)
  have h2: "\<not> conf_in (CVal (PStr ''b'')) [''x'', ''y'']" by simp
  have h3: "[''x'', ''y''] \<noteq> []" by simp
  have c: "name sel0 = ''sel''" "api sel0 = []" "is_button sel0 = False" "encoder sel0 = CVal"
    "leva_conf sel0 = [(''value'', CVal (PStr ''b'')),
       (''options'', CList [CVal (PStr ''a''), CVal (PStr ''b''), CVal (PStr ''c'')])]"
    by (simp_all add: sel0_def)
  from set_options_config_message [OF h1 h2 h3, of rt_demo 9] show ?thesis
    using h1 by (simp add: c)
qed

text \<open>C3 as it is written fails on the sample dropdown: before the call the configuration
  says b, and the configuration message queued by \<^verbatim>\<open>set_options(["x", "y"])\<close> says x.\<close>

theorem set_options_config_message_counterexample:
  "map_of (leva_conf sel0) ''value'' = Some (CVal (PStr ''b''))
   \<and> api (snd (set_options rt_demo 9 sel0 [''x'', ''y''])) =
       [GuiSetLevaConfMessage ''sel''
          [(''value'', CVal (PStr ''x'')), (''options'', CList [CVal (PStr ''x''), CVal (PStr ''y'')])],
        GuiSetValueMessage ''sel'' (CVal (PStr ''x''))]"
  by (simp add: sel0_def rt_demo_def set_options_def set_value_def api_queue_def
      dict_get_def Let_def)

end
